theory Spec2Isabelle
  imports Complex_Main
begin

section \<open>JavaScript values\<close>

text \<open>
  The adapter of \<^verbatim>\<open>src/services/api.ts\<close> handles untyped data: what
  \<^verbatim>\<open>response.json()\<close> and \<^verbatim>\<open>JSON.parse\<close> produce, and the objects built by
  spread expressions. A value is one of the JSON shapes, or \<^verbatim>\<open>undefined\<close> (what reading
  an absent property gives). An object is the list of its own properties in insertion
  order; a property is read with \<open>map_of\<close>.
\<close>

datatype jsval =
    Undefined
  | JNull
  | JBool bool
  | JNum real
  | JStr string
  | JArr "jsval list"
  | JObj "(string \<times> jsval) list"

text \<open>\<^verbatim>\<open>Array.isArray(v)\<close>.\<close>

fun isArray :: "jsval \<Rightarrow> bool" where
  "isArray (JArr xs) = True"
| "isArray v = False"

text \<open>\<^verbatim>\<open>typeof v\<close>.\<close>

fun typeof :: "jsval \<Rightarrow> string" where
  "typeof Undefined = ''undefined''"
| "typeof JNull = ''object''"
| "typeof (JBool b) = ''boolean''"
| "typeof (JNum n) = ''number''"
| "typeof (JStr s) = ''string''"
| "typeof (JArr xs) = ''object''"
| "typeof (JObj ps) = ''object''"

text \<open>The truth value of \<open>v\<close> as the left operand of \<^verbatim>\<open>&&\<close>.\<close>

fun truthy :: "jsval \<Rightarrow> bool" where
  "truthy Undefined = False"
| "truthy JNull = False"
| "truthy (JBool b) = b"
| "truthy (JNum n) = (n \<noteq> 0)"
| "truthy (JStr s) = (s \<noteq> [])"
| "truthy (JArr xs) = True"
| "truthy (JObj ps) = True"

text \<open>
  \<^verbatim>\<open>k in v\<close>, for the keys this module tests (\<^verbatim>\<open>body\<close>, \<^verbatim>\<open>Items\<close>, \<^verbatim>\<open>books\<close>,
  \<^verbatim>\<open>readingLists\<close>): none of them is an array index or a name inherited from a
  prototype, so the test is true exactly of an object that has the key among its own
  properties. The source applies \<^verbatim>\<open>in\<close> only behind
  \<^verbatim>\<open>v && typeof v === 'object'\<close>, so the remaining equation is never consulted.
\<close>

fun has_key :: "string \<Rightarrow> jsval \<Rightarrow> bool" where
  "has_key k (JObj ps) = (k \<in> fst ` set ps)"
| "has_key k v = False"

text \<open>The property read \<^verbatim>\<open>v.k\<close>.\<close>

fun member_of :: "jsval \<Rightarrow> string \<Rightarrow> jsval" where
  "member_of (JObj ps) k = (case map_of ps k of Some v \<Rightarrow> v | None \<Rightarrow> Undefined)"
| "member_of v k = Undefined"

text \<open>
  \<^verbatim>\<open>{...obj, k: v}\<close> on the properties of \<open>obj\<close>: a key that \<open>obj\<close> has keeps its
  place and takes the new value, a new key goes last.
\<close>

fun set_property :: "'k \<Rightarrow> 'v \<Rightarrow> ('k \<times> 'v) list \<Rightarrow> ('k \<times> 'v) list" where
  "set_property k v [] = [(k, v)]"
| "set_property k v (p # ps) =
     (if fst p = k then (k, v) # ps else p # set_property k v ps)"

section \<open>The HTTP boundary\<close>

text \<open>
  A request as \<^verbatim>\<open>fetch(url, init)\<close> receives it; \<open>body\<close> is the value handed to
  \<^verbatim>\<open>JSON.stringify\<close>. A response carries its status and the outcome of
  \<^verbatim>\<open>response.json()\<close> (\<open>None\<close>: the promise rejects, the body is not JSON).
\<close>

record request =
  url :: string
  http_method :: string
  headers :: "(string \<times> string) list"
  body :: "jsval option"

record response =
  status :: nat
  json :: "jsval option"

text \<open>\<^verbatim>\<open>response.ok\<close>: the status is in the range 200 to 299.\<close>

definition ok :: "response \<Rightarrow> bool" where
  "ok r = (200 \<le> status r \<and> status r \<le> 299)"

text \<open>
  What a call can throw: \<^verbatim>\<open>new Error(message)\<close>, the \<^verbatim>\<open>SyntaxError\<close> of a JSON
  parse, and the rejection of \<^verbatim>\<open>fetch\<close> itself when no response arrives.
\<close>

datatype error = Error string | SyntaxError | NetworkError

definition CURRENT_USER_ID :: string where
  "CURRENT_USER_ID = ''1''"

text \<open>\<^verbatim>\<open>fetch(url)\<close> with no second argument.\<close>

definition get_request :: "string \<Rightarrow> request" where
  "get_request u = \<lparr>url = u, http_method = ''GET'', headers = [], body = None\<rparr>"

text \<open>
  \<^verbatim>\<open>parseApiJson\<close>. \<open>JSON_parse\<close> is the platform's \<^verbatim>\<open>JSON.parse\<close>, \<open>None\<close> when it
  throws.
\<close>

definition parseApiJson :: "(string \<Rightarrow> jsval option) \<Rightarrow> response \<Rightarrow> error + jsval" where
  "parseApiJson JSON_parse r =
     (case json r of
        None \<Rightarrow> Inl SyntaxError
      | Some data \<Rightarrow>
          if typeof data = ''string'' then
            (case data of
               JStr s \<Rightarrow> (case JSON_parse s of None \<Rightarrow> Inl SyntaxError | Some v \<Rightarrow> Inr v)
             | _ \<Rightarrow> Inr data)
          else if truthy data \<and> typeof data = ''object'' \<and> has_key ''body'' data then
            (case member_of data ''body'' of
               JStr s \<Rightarrow> (case JSON_parse s of None \<Rightarrow> Inl SyntaxError | Some v \<Rightarrow> Inr v)
             | b \<Rightarrow> Inr b)
          else Inr data)"

subsection \<open>Books\<close>

definition getBooks_request :: "string \<Rightarrow> request" where
  "getBooks_request API_BASE_URL = get_request (API_BASE_URL @ ''/books'')"

definition getBooks ::
  "string \<Rightarrow> (string \<Rightarrow> jsval option) \<Rightarrow> (request \<Rightarrow> response option) \<Rightarrow> error + jsval" where
  "getBooks API_BASE_URL JSON_parse fetch =
     (case fetch (getBooks_request API_BASE_URL) of
        None \<Rightarrow> Inl NetworkError
      | Some r \<Rightarrow>
          if \<not> ok r then Inl (Error ''Failed to fetch books'')
          else
            (case parseApiJson JSON_parse r of
               Inl e \<Rightarrow> Inl e
             | Inr data \<Rightarrow>
                 if isArray data then Inr data
                 else if truthy data \<and> typeof data = ''object'' \<and> has_key ''Items'' data
                   then Inr (member_of data ''Items'')
                 else if truthy data \<and> typeof data = ''object'' \<and> has_key ''books'' data
                   then Inr (member_of data ''books'')
                 else Inr (JArr [])))"

definition getBook_request :: "string \<Rightarrow> string \<Rightarrow> request" where
  "getBook_request API_BASE_URL ident = get_request (API_BASE_URL @ ''/books/'' @ ident)"

definition getBook ::
  "string \<Rightarrow> (string \<Rightarrow> jsval option) \<Rightarrow> (request \<Rightarrow> response option) \<Rightarrow> string
     \<Rightarrow> error + jsval" where
  "getBook API_BASE_URL JSON_parse fetch ident =
     (case fetch (getBook_request API_BASE_URL ident) of
        None \<Rightarrow> Inl NetworkError
      | Some r \<Rightarrow>
          if status r = 404 then Inr JNull
          else if \<not> ok r then Inl (Error ''Failed to fetch book'')
          else parseApiJson JSON_parse r)"

subsection \<open>Reading lists\<close>

definition getReadingLists_request :: "string \<Rightarrow> request" where
  "getReadingLists_request API_BASE_URL =
     get_request (API_BASE_URL @ ''/reading-lists?userId='' @ CURRENT_USER_ID)"

definition getReadingLists ::
  "string \<Rightarrow> (string \<Rightarrow> jsval option) \<Rightarrow> (request \<Rightarrow> response option) \<Rightarrow> error + jsval" where
  "getReadingLists API_BASE_URL JSON_parse fetch =
     (case fetch (getReadingLists_request API_BASE_URL) of
        None \<Rightarrow> Inl NetworkError
      | Some r \<Rightarrow>
          if \<not> ok r then Inl (Error ''Failed to fetch reading lists'')
          else
            (case parseApiJson JSON_parse r of
               Inl e \<Rightarrow> Inl e
             | Inr data \<Rightarrow>
                 if isArray data then Inr data
                 else if truthy data \<and> typeof data = ''object'' \<and> has_key ''Items'' data
                   then Inr (member_of data ''Items'')
                 else if truthy data \<and> typeof data = ''object''
                     \<and> has_key ''readingLists'' data
                   then Inr (member_of data ''readingLists'')
                 else Inr (JArr [])))"

text \<open>
  \<^verbatim>\<open>createReadingList\<close>: the payload is the caller's object with \<^verbatim>\<open>userId\<close>
  overwritten, sent by POST.
\<close>

definition createReadingList_request :: "string \<Rightarrow> (string \<times> jsval) list \<Rightarrow> request" where
  "createReadingList_request API_BASE_URL list =
     (let payload = set_property ''userId'' (JStr CURRENT_USER_ID) list
      in \<lparr>url = API_BASE_URL @ ''/reading-lists'',
          http_method = ''POST'',
          headers = [(''Content-Type'', ''application/json'')],
          body = Some (JObj payload)\<rparr>)"

definition createReadingList ::
  "string \<Rightarrow> (string \<Rightarrow> jsval option) \<Rightarrow> (request \<Rightarrow> response option)
     \<Rightarrow> (string \<times> jsval) list \<Rightarrow> error + jsval" where
  "createReadingList API_BASE_URL JSON_parse fetch list =
     (case fetch (createReadingList_request API_BASE_URL list) of
        None \<Rightarrow> Inl NetworkError
      | Some r \<Rightarrow>
          if \<not> ok r then Inl (Error ''Failed to create reading list'')
          else parseApiJson JSON_parse r)"

definition updateReadingList_request ::
  "string \<Rightarrow> string \<Rightarrow> (string \<times> jsval) list \<Rightarrow> request" where
  "updateReadingList_request API_BASE_URL ident list =
     (let payload = set_property ''userId'' (JStr CURRENT_USER_ID) list
      in \<lparr>url = API_BASE_URL @ ''/reading-lists/'' @ ident,
          http_method = ''PUT'',
          headers = [(''Content-Type'', ''application/json'')],
          body = Some (JObj payload)\<rparr>)"

definition updateReadingList ::
  "string \<Rightarrow> (string \<Rightarrow> jsval option) \<Rightarrow> (request \<Rightarrow> response option) \<Rightarrow> string
     \<Rightarrow> (string \<times> jsval) list \<Rightarrow> error + jsval" where
  "updateReadingList API_BASE_URL JSON_parse fetch ident list =
     (case fetch (updateReadingList_request API_BASE_URL ident list) of
        None \<Rightarrow> Inl NetworkError
      | Some r \<Rightarrow>
          if \<not> ok r then Inl (Error ''Failed to update reading list'')
          else parseApiJson JSON_parse r)"

definition deleteReadingList_request :: "string \<Rightarrow> string \<Rightarrow> request" where
  "deleteReadingList_request API_BASE_URL ident =
     (let payload = [(''userId'', JStr CURRENT_USER_ID)]
      in \<lparr>url = API_BASE_URL @ ''/reading-lists/'' @ ident,
          http_method = ''DELETE'',
          headers = [(''Content-Type'', ''application/json'')],
          body = Some (JObj payload)\<rparr>)"

definition deleteReadingList ::
  "string \<Rightarrow> (request \<Rightarrow> response option) \<Rightarrow> string \<Rightarrow> error + unit" where
  "deleteReadingList API_BASE_URL fetch ident =
     (case fetch (deleteReadingList_request API_BASE_URL ident) of
        None \<Rightarrow> Inl NetworkError
      | Some r \<Rightarrow>
          if \<not> ok r \<and> status r \<noteq> 204 then Inl (Error ''Failed to delete reading list'')
          else Inr ())"

section \<open>Mocked operations\<close>

text \<open>
  A mocked operation is \<^verbatim>\<open>new Promise(resolve => setTimeout(() => resolve(...), ms))\<close>:
  a callback and the delay after which the timer runs it. The callback may read the clock;
  its argument gives the reading of each read it makes, in order (\<open>clock 0\<close> the first),
  in milliseconds since the epoch. The promise resolves with what the callback computes.
\<close>

datatype 'a promise = SetTimeout (callback: "(nat \<Rightarrow> int) \<Rightarrow> 'a") (delay: nat)

text \<open>
  \<^verbatim>\<open>Date.now().toString()\<close>: a time value is an integer of magnitude at most
  8.64e15, which \<^verbatim>\<open>Number.prototype.toString\<close> renders in plain decimal digits, with a
  minus sign when negative.
\<close>

fun digits :: "nat \<Rightarrow> string" where
  "digits n =
     (if n < 10 then [''0123456789'' ! n]
      else digits (n div 10) @ [''0123456789'' ! (n mod 10)])"

declare digits.simps [simp del]

definition Number_toString :: "int \<Rightarrow> string" where
  "Number_toString n = (if n < 0 then CHR ''-'' # digits (nat (- n)) else digits (nat n))"

text \<open>Reading a digit string back, to state that \<open>digits\<close> is the decimal rendering.\<close>

definition digit_value :: "char \<Rightarrow> nat" where
  "digit_value c = of_char c - 48"

definition decimal_value :: "string \<Rightarrow> nat" where
  "decimal_value s = foldl (\<lambda>a c. 10 * a + digit_value c) 0 s"

definition createBook :: "(string \<times> jsval) list \<Rightarrow> (string \<times> jsval) list promise" where
  "createBook book =
     SetTimeout
       (\<lambda>clock.
          let newBook = set_property ''id'' (JStr (Number_toString (clock 0))) book
          in newBook)
       500"

definition updateBook ::
  "string \<Rightarrow> (string \<times> jsval) list \<Rightarrow> (string \<times> jsval) list promise" where
  "updateBook ident book =
     SetTimeout
       (\<lambda>clock.
          let updatedBook = set_property ''id'' (JStr ident) book
          in updatedBook)
       500"

definition deleteBook :: "unit promise" where
  "deleteBook = SetTimeout (\<lambda>clock. ()) 300"

definition getRecommendations :: "jsval list promise" where
  "getRecommendations =
     SetTimeout
       (\<lambda>clock.
          let mockRecommendations =
            [JObj [(''id'', JStr ''1''),
                   (''bookId'', JStr ''1''),
                   (''reason'', JStr ''Based on your interest in philosophical fiction, this book explores themes of choice and regret.''),
                   (''confidence'', JNum 0.92)],
             JObj [(''id'', JStr ''2''),
                   (''bookId'', JStr ''2''),
                   (''reason'', JStr ''If you enjoy science-based thrillers, this space adventure combines humor with hard science.''),
                   (''confidence'', JNum 0.88)]]
          in mockRecommendations)
       1000"

definition getReviews :: "string \<Rightarrow> jsval list promise" where
  "getReviews bookId =
     SetTimeout
       (\<lambda>clock.
          let mockReviews =
            [JObj [(''id'', JStr ''1''),
                   (''bookId'', JStr bookId),
                   (''userId'', JStr ''1''),
                   (''rating'', JNum 5),
                   (''comment'', JStr ''Absolutely loved this book! A must-read.''),
                   (''createdAt'', JStr ''2024-11-01T10:00:00Z'')]]
          in mockReviews)
       500"

text \<open>
  \<^verbatim>\<open>createReview\<close> reads the clock twice, for \<^verbatim>\<open>Date.now()\<close> and then for
  \<^verbatim>\<open>new Date()\<close>. \<open>toISOString\<close> is the platform's rendering of a time value.
\<close>

definition createReview ::
  "(int \<Rightarrow> string) \<Rightarrow> (string \<times> jsval) list \<Rightarrow> (string \<times> jsval) list promise" where
  "createReview toISOString review =
     SetTimeout
       (\<lambda>clock.
          let newReview =
            set_property ''createdAt'' (JStr (toISOString (clock 1)))
              (set_property ''id'' (JStr (Number_toString (clock 0))) review)
          in newReview)
       500"

text \<open>A clock that stands still at \<open>t\<close>, for evaluating a callback.\<close>

definition clock_at :: "int \<Rightarrow> nat \<Rightarrow> int" where
  "clock_at t k = t"

section \<open>The confirmation form\<close>

text \<open>
  The state of \<^verbatim>\<open>ConfirmSignup\<close>: one field for each \<^verbatim>\<open>useState\<close>. \<open>errors\<close> is the
  object \<^verbatim>\<open>{ email?: string; code?: string }\<close>, as its properties in insertion order.
\<close>

record form =
  email :: string
  code :: string
  errors :: "(string \<times> string) list"
  isLoading :: bool
  isResending :: bool

text \<open>
  What a handler does to the outside, in order. \<open>'e\<close> is whatever the identity provider
  rejects with.
\<close>

datatype 'e effect =
    PreventDefault
  | ConfirmSignUp string string
  | ResendSignUpCode string
  | ShowSuccess string
  | Navigate string
  | HandleApiError 'e

text \<open>
  \<^verbatim>\<open>validate\<close>. The two validators are imported from \<^verbatim>\<open>@/utils/validation\<close>, which is
  not among the sources: they are parameters. The result is the returned boolean and the
  state after \<^verbatim>\<open>setErrors(newErrors)\<close>.
\<close>

definition validate ::
  "(string \<Rightarrow> bool) \<Rightarrow> (string \<Rightarrow> bool) \<Rightarrow> form \<Rightarrow> bool \<times> form" where
  "validate validateRequired validateEmail st =
     (let newErrors = [];
          newErrors =
            (if \<not> validateRequired (email st)
               then set_property ''email'' ''Email is required'' newErrors
             else if \<not> validateEmail (email st)
               then set_property ''email'' ''Invalid email format'' newErrors
             else newErrors);
          newErrors =
            (if \<not> validateRequired (code st)
               then set_property ''code'' ''Verification code is required'' newErrors
             else newErrors)
      in (length (map fst newErrors) = 0, st\<lparr>errors := newErrors\<rparr>))"

text \<open>
  \<^verbatim>\<open>handleConfirm\<close>. \<open>confirmSignUp\<close> is the identity provider's operation: \<open>None\<close>
  when it resolves, \<open>Some e\<close> when it rejects with \<open>e\<close>. The toast and the navigation
  are recorded as effects and taken not to throw. The handler reads \<open>email\<close> and \<open>code\<close>
  of the render it was created in, so of \<open>st\<close>.
\<close>

definition handleConfirm ::
  "(string \<Rightarrow> bool) \<Rightarrow> (string \<Rightarrow> bool) \<Rightarrow> (string \<Rightarrow> string \<Rightarrow> 'e option) \<Rightarrow> form
     \<Rightarrow> form \<times> 'e effect list" where
  "handleConfirm validateRequired validateEmail confirmSignUp st =
     (case validate validateRequired validateEmail st of
        (valid, st1) \<Rightarrow>
          if \<not> valid then (st1, [PreventDefault])
          else
            (let st2 = st1\<lparr>isLoading := True\<rparr> in
             case confirmSignUp (email st) (code st) of
               None \<Rightarrow>
                 (st2\<lparr>isLoading := False\<rparr>,
                  [PreventDefault,
                   ConfirmSignUp (email st) (code st),
                   ShowSuccess ''Account verified. You can sign in now.'',
                   Navigate ''/login''])
             | Some e \<Rightarrow>
                 (st2\<lparr>isLoading := False\<rparr>,
                  [PreventDefault,
                   ConfirmSignUp (email st) (code st),
                   HandleApiError e])))"

text \<open>\<^verbatim>\<open>handleResend\<close>, with \<open>resendSignUpCode\<close> the provider's operation.\<close>

definition handleResend ::
  "(string \<Rightarrow> bool) \<Rightarrow> (string \<Rightarrow> bool) \<Rightarrow> (string \<Rightarrow> 'e option) \<Rightarrow> form
     \<Rightarrow> form \<times> 'e effect list" where
  "handleResend validateRequired validateEmail resendSignUpCode st =
     (if \<not> validateRequired (email st)
        then (st\<lparr>errors := [(''email'', ''Email is required'')]\<rparr>, [])
      else if \<not> validateEmail (email st)
        then (st\<lparr>errors := [(''email'', ''Invalid email format'')]\<rparr>, [])
      else
        (let st1 = st\<lparr>isResending := True\<rparr> in
         case resendSignUpCode (email st) of
           None \<Rightarrow>
             (st1\<lparr>isResending := False\<rparr>,
              [ResendSignUpCode (email st),
               ShowSuccess ''Verification code resent. Check your email.''])
         | Some e \<Rightarrow>
             (st1\<lparr>isResending := False\<rparr>,
              [ResendSignUpCode (email st), HandleApiError e])))"

text \<open>Whether a handler reached the provider.\<close>

fun is_confirm :: "'e effect \<Rightarrow> bool" where
  "is_confirm (ConfirmSignUp u c) = True"
| "is_confirm x = False"

fun is_resend :: "'e effect \<Rightarrow> bool" where
  "is_resend (ResendSignUpCode u) = True"
| "is_resend x = False"

subsection \<open>Stand-ins for evaluating the handlers\<close>

text \<open>
  Modelled from the spec: \<^verbatim>\<open>validateRequired\<close> of \<^verbatim>\<open>@/utils/validation\<close> is not among
  the sources. The spec says that validation rejects an empty email and an empty code; this
  stand-in rejects the empty string and nothing else. It only instantiates theorems that
  hold for every validator.
\<close>

definition required_nonempty :: "string \<Rightarrow> bool" where
  "required_nonempty s = (s \<noteq> [])"

text \<open>
  Modelled from the spec: \<^verbatim>\<open>validateEmail\<close> of \<^verbatim>\<open>@/utils/validation\<close> is not among the
  sources. The spec says that a malformed email is rejected and gives no format; this
  stand-in asks for an at sign. It only instantiates theorems that hold for every
  validator.
\<close>

definition email_has_at :: "string \<Rightarrow> bool" where
  "email_has_at s = (CHR ''@'' \<in> set s)"

text \<open>The form as first rendered, with \<open>e\<close> and \<open>c\<close> typed into its two fields.\<close>

definition form_with :: "string \<Rightarrow> string \<Rightarrow> form" where
  "form_with e c = \<lparr>email = e, code = c, errors = [], isLoading = False, isResending = False\<rparr>"

text \<open>A provider that accepts every call.\<close>

definition confirm_accepts :: "string \<Rightarrow> string \<Rightarrow> string option" where
  "confirm_accepts u c = None"

definition resend_accepts :: "string \<Rightarrow> string option" where
  "resend_accepts u = None"

text \<open>A server that answers every request with \<open>r\<close>, and a parser that accepts nothing.\<close>

definition server_returning :: "response \<Rightarrow> request \<Rightarrow> response option" where
  "server_returning r req = Some r"

definition parse_nothing :: "string \<Rightarrow> jsval option" where
  "parse_nothing s = None"

text \<open>
  A server that looks at the body it receives: it answers with \<open>r\<close> a request whose
  body has \<^verbatim>\<open>userId\<close> equal to \<open>uid\<close>, and does not answer any other request.
\<close>

definition server_for_user :: "string \<Rightarrow> response \<Rightarrow> request \<Rightarrow> response option" where
  "server_for_user uid r req =
     (if map_option (\<lambda>payload. member_of payload ''userId'') (body req) = Some (JStr uid)
      then Some r else None)"

section \<open>Properties of the value model\<close>

lemma set_property_same: "map_of (set_property k v ps) k = Some v"
  by (induction ps) auto

lemma set_property_other: "k' \<noteq> k \<Longrightarrow> map_of (set_property k v ps) k' = map_of ps k'"
  by (induction ps) auto

lemma has_key_map_of: "has_key k (JObj ps) \<longleftrightarrow> map_of ps k \<noteq> None"
  by (simp add: map_of_eq_None_iff)

text \<open>\<open>digits\<close> writes a number in base ten: reading the digits back gives the number.\<close>

lemma digit_value_digit: "d < 10 \<Longrightarrow> digit_value (''0123456789'' ! d) = d"
proof -
  assume "d < 10"
  then have "d \<in> {0, 1, 2, 3, 4, 5, 6, 7, 8, 9}" by auto
  then show ?thesis by (auto simp: digit_value_def)
qed

lemma decimal_value_snoc: "decimal_value (s @ [c]) = 10 * decimal_value s + digit_value c"
  by (simp add: decimal_value_def)

lemma decimal_value_digits: "decimal_value (digits n) = n"
proof (induction n rule: digits.induct)
  case (1 n)
  show ?case
  proof (cases "n < 10")
    case True
    then show ?thesis
      by (subst digits.simps) (simp add: decimal_value_def digit_value_digit)
  next
    case False
    then have "decimal_value (digits (n div 10)) = n div 10" using 1 by simp
    with False show ?thesis
      by (subst digits.simps) (simp add: decimal_value_snoc digit_value_digit)
  qed
qed

lemma Number_toString_example: "Number_toString 1730505600000 = ''1730505600000''"
  by (simp add: Number_toString_def digits.simps)

section \<open>The list envelopes\<close>

text \<open>
  C1, as the code has it. For a successful response whose body, as \<open>parseApiJson\<close> returns
  it, is a bare array, an object whose \<^verbatim>\<open>Items\<close> is an array, or an object with no
  \<^verbatim>\<open>Items\<close> key whose \<^verbatim>\<open>books\<close> is an array, \<open>getBooks\<close> returns exactly that array.
  The \<^verbatim>\<open>Items\<close> test comes first in the source, so \<^verbatim>\<open>books\<close> is read only from an
  object without an \<^verbatim>\<open>Items\<close> key.
\<close>

theorem getBooks_unwraps_envelope:
  assumes "fetch (getBooks_request base) = Some r"
    and "ok r"
    and "parseApiJson JSON_parse r = Inr data"
  shows "(data = JArr xs \<longrightarrow> getBooks base JSON_parse fetch = Inr (JArr xs))
       \<and> (data = JObj ps \<and> map_of ps ''Items'' = Some (JArr xs)
            \<longrightarrow> getBooks base JSON_parse fetch = Inr (JArr xs))
       \<and> (data = JObj ps \<and> map_of ps ''Items'' = None \<and> map_of ps ''books'' = Some (JArr xs)
            \<longrightarrow> getBooks base JSON_parse fetch = Inr (JArr xs))"
  using assms by (auto simp: getBooks_def has_key_map_of simp del: has_key.simps)

theorem getBooks_unwraps_envelope_witness:
  "getBooks ''https://api'' parse_nothing
     (server_returning \<lparr>status = 200, json = Some (JArr [JStr ''b''])\<rparr>)
       = Inr (JArr [JStr ''b''])
   \<and> getBooks ''https://api'' parse_nothing
     (server_returning \<lparr>status = 200, json = Some (JObj [(''Items'', JArr [JStr ''b''])])\<rparr>)
       = Inr (JArr [JStr ''b''])
   \<and> getBooks ''https://api'' parse_nothing
     (server_returning \<lparr>status = 200, json = Some (JObj [(''books'', JArr [JStr ''b''])])\<rparr>)
       = Inr (JArr [JStr ''b''])"
  using
    getBooks_unwraps_envelope
      [where fetch = "server_returning \<lparr>status = 200, json = Some (JArr [JStr ''b''])\<rparr>"
        and base = "''https://api''" and JSON_parse = parse_nothing
        and r = "\<lparr>status = 200, json = Some (JArr [JStr ''b''])\<rparr>"
        and data = "JArr [JStr ''b'']" and xs = "[JStr ''b'']"]
    getBooks_unwraps_envelope
      [where fetch = "server_returning
          \<lparr>status = 200, json = Some (JObj [(''Items'', JArr [JStr ''b''])])\<rparr>"
        and base = "''https://api''" and JSON_parse = parse_nothing
        and r = "\<lparr>status = 200, json = Some (JObj [(''Items'', JArr [JStr ''b''])])\<rparr>"
        and data = "JObj [(''Items'', JArr [JStr ''b''])]" and xs = "[JStr ''b'']"
        and ps = "[(''Items'', JArr [JStr ''b''])]"]
    getBooks_unwraps_envelope
      [where fetch = "server_returning
          \<lparr>status = 200, json = Some (JObj [(''books'', JArr [JStr ''b''])])\<rparr>"
        and base = "''https://api''" and JSON_parse = parse_nothing
        and r = "\<lparr>status = 200, json = Some (JObj [(''books'', JArr [JStr ''b''])])\<rparr>"
        and data = "JObj [(''books'', JArr [JStr ''b''])]" and xs = "[JStr ''b'']"
        and ps = "[(''books'', JArr [JStr ''b''])]"]
  by (simp add: server_returning_def ok_def parseApiJson_def)

text \<open>
  Without the condition on \<^verbatim>\<open>Items\<close> the statement fails: the body below has a
  \<^verbatim>\<open>books\<close> array, and \<open>getBooks\<close> returns the value of \<^verbatim>\<open>Items\<close>, here \<^verbatim>\<open>null\<close>.
\<close>

theorem getBooks_books_field_counterexample:
  "ok \<lparr>status = 200, json = Some (JObj [(''Items'', JNull), (''books'', JArr [JStr ''b''])])\<rparr>
   \<and> parseApiJson parse_nothing
        \<lparr>status = 200, json = Some (JObj [(''Items'', JNull), (''books'', JArr [JStr ''b''])])\<rparr>
       = Inr (JObj [(''Items'', JNull), (''books'', JArr [JStr ''b''])])
   \<and> map_of [(''Items'', JNull), (''books'', JArr [JStr ''b''])] ''books''
       = Some (JArr [JStr ''b''])
   \<and> getBooks ''https://api'' parse_nothing
        (server_returning
          \<lparr>status = 200, json = Some (JObj [(''Items'', JNull), (''books'', JArr [JStr ''b''])])\<rparr>)
       = Inr JNull"
  by (simp add: ok_def parseApiJson_def getBooks_def server_returning_def)

text \<open>
  C7, as the code has it. For a successful response whose body, as \<open>parseApiJson\<close> returns
  it, is an object with no \<^verbatim>\<open>Items\<close> key whose \<^verbatim>\<open>readingLists\<close> is an array,
  \<open>getReadingLists\<close> returns exactly that array: \<^verbatim>\<open>readingLists\<close> is an envelope of its
  own, beside the bare array and \<^verbatim>\<open>Items\<close>, which \<open>getReadingLists\<close> unwraps as well.
\<close>

theorem getReadingLists_unwraps_envelope:
  assumes "fetch (getReadingLists_request base) = Some r"
    and "ok r"
    and "parseApiJson JSON_parse r = Inr data"
  shows "(data = JObj ps \<and> map_of ps ''Items'' = None
            \<and> map_of ps ''readingLists'' = Some (JArr xs)
            \<longrightarrow> getReadingLists base JSON_parse fetch = Inr (JArr xs))
       \<and> (data = JArr xs \<longrightarrow> getReadingLists base JSON_parse fetch = Inr (JArr xs))
       \<and> (data = JObj ps \<and> map_of ps ''Items'' = Some (JArr xs)
            \<longrightarrow> getReadingLists base JSON_parse fetch = Inr (JArr xs))"
  using assms by (auto simp: getReadingLists_def has_key_map_of simp del: has_key.simps)

theorem getReadingLists_unwraps_envelope_witness:
  "getReadingLists ''https://api'' parse_nothing
     (server_returning
       \<lparr>status = 200, json = Some (JObj [(''readingLists'', JArr [JStr ''l''])])\<rparr>)
       = Inr (JArr [JStr ''l''])
   \<and> getReadingLists ''https://api'' parse_nothing
     (server_returning \<lparr>status = 200, json = Some (JArr [JStr ''l''])\<rparr>)
       = Inr (JArr [JStr ''l''])
   \<and> getReadingLists ''https://api'' parse_nothing
     (server_returning \<lparr>status = 200, json = Some (JObj [(''Items'', JArr [JStr ''l''])])\<rparr>)
       = Inr (JArr [JStr ''l''])"
  using
    getReadingLists_unwraps_envelope
      [where fetch = "server_returning
          \<lparr>status = 200, json = Some (JObj [(''readingLists'', JArr [JStr ''l''])])\<rparr>"
        and base = "''https://api''" and JSON_parse = parse_nothing
        and r = "\<lparr>status = 200, json = Some (JObj [(''readingLists'', JArr [JStr ''l''])])\<rparr>"
        and data = "JObj [(''readingLists'', JArr [JStr ''l''])]" and xs = "[JStr ''l'']"
        and ps = "[(''readingLists'', JArr [JStr ''l''])]"]
    getReadingLists_unwraps_envelope
      [where fetch = "server_returning \<lparr>status = 200, json = Some (JArr [JStr ''l''])\<rparr>"
        and base = "''https://api''" and JSON_parse = parse_nothing
        and r = "\<lparr>status = 200, json = Some (JArr [JStr ''l''])\<rparr>"
        and data = "JArr [JStr ''l'']" and xs = "[JStr ''l'']"]
    getReadingLists_unwraps_envelope
      [where fetch = "server_returning
          \<lparr>status = 200, json = Some (JObj [(''Items'', JArr [JStr ''l''])])\<rparr>"
        and base = "''https://api''" and JSON_parse = parse_nothing
        and r = "\<lparr>status = 200, json = Some (JObj [(''Items'', JArr [JStr ''l''])])\<rparr>"
        and data = "JObj [(''Items'', JArr [JStr ''l''])]" and xs = "[JStr ''l'']"
        and ps = "[(''Items'', JArr [JStr ''l''])]"]
  by (simp add: server_returning_def ok_def parseApiJson_def)

text \<open>
  Without the condition on \<^verbatim>\<open>Items\<close> the statement fails: the body below has a
  \<^verbatim>\<open>readingLists\<close> array, and \<open>getReadingLists\<close> returns the value of \<^verbatim>\<open>Items\<close>.
\<close>

theorem getReadingLists_field_counterexample:
  "ok \<lparr>status = 200,
       json = Some (JObj [(''Items'', JNull), (''readingLists'', JArr [JStr ''l''])])\<rparr>
   \<and> parseApiJson parse_nothing
        \<lparr>status = 200,
         json = Some (JObj [(''Items'', JNull), (''readingLists'', JArr [JStr ''l''])])\<rparr>
       = Inr (JObj [(''Items'', JNull), (''readingLists'', JArr [JStr ''l''])])
   \<and> map_of [(''Items'', JNull), (''readingLists'', JArr [JStr ''l''])] ''readingLists''
       = Some (JArr [JStr ''l''])
   \<and> getReadingLists ''https://api'' parse_nothing
        (server_returning
          \<lparr>status = 200,
           json = Some (JObj [(''Items'', JNull), (''readingLists'', JArr [JStr ''l''])])\<rparr>)
       = Inr JNull"
  by (simp add: ok_def parseApiJson_def getReadingLists_def server_returning_def)

text \<open>
  C8, as the code has it. For a successful response whose body, as \<open>parseApiJson\<close>
  returns it, is not an array and is not an object that has one of the keys the function
  looks for (\<^verbatim>\<open>Items\<close> and \<^verbatim>\<open>books\<close> for \<open>getBooks\<close>, \<^verbatim>\<open>Items\<close> and
  \<^verbatim>\<open>readingLists\<close> for \<open>getReadingLists\<close>), whatever the value under the key, the
  function returns the empty list: it neither throws nor returns the body.
\<close>

theorem unrecognized_body_gives_empty_list:
  assumes "ok r"
    and "parseApiJson JSON_parse r = Inr data"
    and "\<not> isArray data"
  shows "(fetch (getBooks_request base) = Some r
            \<and> \<not> has_key ''Items'' data \<and> \<not> has_key ''books'' data
            \<longrightarrow> getBooks base JSON_parse fetch = Inr (JArr []))
       \<and> (fetch (getReadingLists_request base) = Some r
            \<and> \<not> has_key ''Items'' data \<and> \<not> has_key ''readingLists'' data
            \<longrightarrow> getReadingLists base JSON_parse fetch = Inr (JArr []))"
  using assms by (simp add: getBooks_def getReadingLists_def)

theorem unrecognized_body_gives_empty_list_witness:
  "getBooks ''https://api'' parse_nothing
     (server_returning \<lparr>status = 200, json = Some (JObj [(''total'', JNum 3)])\<rparr>)
       = Inr (JArr [])
   \<and> getReadingLists ''https://api'' parse_nothing
     (server_returning \<lparr>status = 200, json = Some (JObj [(''total'', JNum 3)])\<rparr>)
       = Inr (JArr [])
   \<and> getBooks ''https://api'' parse_nothing
     (server_returning \<lparr>status = 200, json = Some JNull\<rparr>)
       = Inr (JArr [])"
  using
    unrecognized_body_gives_empty_list
      [where r = "\<lparr>status = 200, json = Some (JObj [(''total'', JNum 3)])\<rparr>"
        and JSON_parse = parse_nothing and data = "JObj [(''total'', JNum 3)]"
        and base = "''https://api''"
        and fetch = "server_returning \<lparr>status = 200, json = Some (JObj [(''total'', JNum 3)])\<rparr>"]
    unrecognized_body_gives_empty_list
      [where r = "\<lparr>status = 200, json = Some JNull\<rparr>"
        and JSON_parse = parse_nothing and data = JNull
        and base = "''https://api''"
        and fetch = "server_returning \<lparr>status = 200, json = Some JNull\<rparr>"]
  by (simp add: server_returning_def ok_def parseApiJson_def)

text \<open>
  The absence of the key is needed, not only the absence of an array under it: the body
  below is no array and has no array in any field, and both functions return the
  \<^verbatim>\<open>null\<close> they find under \<^verbatim>\<open>Items\<close>, not the empty list.
\<close>

theorem non_array_field_counterexample:
  "ok \<lparr>status = 200, json = Some (JObj [(''Items'', JNull)])\<rparr>
   \<and> parseApiJson parse_nothing \<lparr>status = 200, json = Some (JObj [(''Items'', JNull)])\<rparr>
       = Inr (JObj [(''Items'', JNull)])
   \<and> \<not> isArray (JObj [(''Items'', JNull)])
   \<and> \<not> isArray (member_of (JObj [(''Items'', JNull)]) ''Items'')
   \<and> \<not> isArray (member_of (JObj [(''Items'', JNull)]) ''books'')
   \<and> \<not> isArray (member_of (JObj [(''Items'', JNull)]) ''readingLists'')
   \<and> getBooks ''https://api'' parse_nothing
        (server_returning \<lparr>status = 200, json = Some (JObj [(''Items'', JNull)])\<rparr>)
       = Inr JNull
   \<and> getReadingLists ''https://api'' parse_nothing
        (server_returning \<lparr>status = 200, json = Some (JObj [(''Items'', JNull)])\<rparr>)
       = Inr JNull"
  by (simp add: ok_def parseApiJson_def getBooks_def getReadingLists_def server_returning_def)

section \<open>Failed responses\<close>

text \<open>
  C2, as the code has it. On a response whose status is outside 200 to 299, \<open>getBooks\<close>,
  \<open>getReadingLists\<close>, \<open>createReadingList\<close>, \<open>updateReadingList\<close> and
  \<open>deleteReadingList\<close> throw a plain \<^verbatim>\<open>Error\<close> and return nothing; \<open>getBook\<close> does so
  for every such status but 404, where it returns \<^verbatim>\<open>null\<close>.
\<close>

theorem failed_response_throws:
  assumes "\<not> ok r"
  shows "(fetch (getBooks_request base) = Some r
            \<longrightarrow> getBooks base JSON_parse fetch = Inl (Error ''Failed to fetch books''))
       \<and> (fetch (getBook_request base ident) = Some r \<and> status r \<noteq> 404
            \<longrightarrow> getBook base JSON_parse fetch ident = Inl (Error ''Failed to fetch book''))
       \<and> (fetch (getBook_request base ident) = Some r \<and> status r = 404
            \<longrightarrow> getBook base JSON_parse fetch ident = Inr JNull)
       \<and> (fetch (getReadingLists_request base) = Some r
            \<longrightarrow> getReadingLists base JSON_parse fetch
                  = Inl (Error ''Failed to fetch reading lists''))
       \<and> (fetch (createReadingList_request base list) = Some r
            \<longrightarrow> createReadingList base JSON_parse fetch list
                  = Inl (Error ''Failed to create reading list''))
       \<and> (fetch (updateReadingList_request base ident list) = Some r
            \<longrightarrow> updateReadingList base JSON_parse fetch ident list
                  = Inl (Error ''Failed to update reading list''))
       \<and> (fetch (deleteReadingList_request base ident) = Some r
            \<longrightarrow> deleteReadingList base fetch ident
                  = Inl (Error ''Failed to delete reading list''))"
proof -
  have "status r \<noteq> 204" using assms by (auto simp: ok_def)
  with assms show ?thesis
    by (simp add: getBooks_def getBook_def getReadingLists_def createReadingList_def
        updateReadingList_def deleteReadingList_def)
qed

theorem failed_response_throws_witness:
  "\<not> ok \<lparr>status = 500, json = Some (JArr [])\<rparr>
   \<and> getBooks ''https://api'' parse_nothing
        (server_returning \<lparr>status = 500, json = Some (JArr [])\<rparr>)
       = Inl (Error ''Failed to fetch books'')
   \<and> getBook ''https://api'' parse_nothing
        (server_returning \<lparr>status = 500, json = Some (JArr [])\<rparr>) ''7''
       = Inl (Error ''Failed to fetch book'')
   \<and> getReadingLists ''https://api'' parse_nothing
        (server_returning \<lparr>status = 500, json = Some (JArr [])\<rparr>)
       = Inl (Error ''Failed to fetch reading lists'')
   \<and> createReadingList ''https://api'' parse_nothing
        (server_returning \<lparr>status = 500, json = Some (JArr [])\<rparr>) [(''name'', JStr ''Summer'')]
       = Inl (Error ''Failed to create reading list'')
   \<and> updateReadingList ''https://api'' parse_nothing
        (server_returning \<lparr>status = 500, json = Some (JArr [])\<rparr>) ''7''
        [(''name'', JStr ''Summer'')]
       = Inl (Error ''Failed to update reading list'')
   \<and> deleteReadingList ''https://api''
        (server_returning \<lparr>status = 500, json = Some (JArr [])\<rparr>) ''7''
       = Inl (Error ''Failed to delete reading list'')
   \<and> \<not> ok \<lparr>status = 404, json = Some (JObj [(''message'', JStr ''Not Found'')])\<rparr>
   \<and> getBook ''https://api'' parse_nothing
        (server_returning \<lparr>status = 404, json = Some (JObj [(''message'', JStr ''Not Found'')])\<rparr>)
        ''7''
       = Inr JNull"
proof -
  have k: "\<not> ok \<lparr>status = 500, json = Some (JArr [])\<rparr>"
    "\<not> ok \<lparr>status = 404, json = Some (JObj [(''message'', JStr ''Not Found'')])\<rparr>"
    by (simp_all add: ok_def)
  show ?thesis
    using k
      failed_response_throws [OF k(1),
        where fetch = "server_returning \<lparr>status = 500, json = Some (JArr [])\<rparr>"
          and base = "''https://api''" and JSON_parse = parse_nothing and ident = "''7''"
          and list = "[(''name'', JStr ''Summer'')]"]
      failed_response_throws [OF k(2),
        where fetch = "server_returning
            \<lparr>status = 404, json = Some (JObj [(''message'', JStr ''Not Found'')])\<rparr>"
          and base = "''https://api''" and JSON_parse = parse_nothing and ident = "''7''"]
    by (simp add: server_returning_def)
qed

text \<open>
  The exception is real: on a 404, a status outside 200 to 299, \<open>getBook\<close> returns
  \<^verbatim>\<open>null\<close> and throws nothing.
\<close>

theorem getBook_not_found_counterexample:
  "\<not> ok \<lparr>status = 404, json = None\<rparr>
   \<and> getBook ''https://api'' parse_nothing (server_returning \<lparr>status = 404, json = None\<rparr>) ''7''
       = Inr JNull"
  by (simp add: ok_def getBook_def server_returning_def)

section \<open>Request bodies\<close>

text \<open>
  C6. Whatever object the caller passes, with or without a \<^verbatim>\<open>userId\<close> of its own,
  \<open>createReadingList\<close> and \<open>updateReadingList\<close> send one request, by POST and by PUT,
  whose body has \<^verbatim>\<open>userId\<close> equal to \<^verbatim>\<open>'1'\<close>, the value of \<open>CURRENT_USER_ID\<close>, and
  their outcome is what the network makes of that request. So a server that answers only
  a body with \<^verbatim>\<open>userId\<close> \<^verbatim>\<open>'1'\<close> answers both operations, and a server that answers
  only a body with \<^verbatim>\<open>userId\<close> \<^verbatim>\<open>'2'\<close> never does, also when the caller passes
  \<^verbatim>\<open>userId: '2'\<close>.
\<close>

theorem request_body_userId:
  "createReadingList base JSON_parse fetch list =
     (case fetch (createReadingList_request base list) of
        None \<Rightarrow> Inl NetworkError
      | Some r \<Rightarrow>
          if \<not> ok r then Inl (Error ''Failed to create reading list'')
          else parseApiJson JSON_parse r)
   \<and> http_method (createReadingList_request base list) = ''POST''
   \<and> url (createReadingList_request base list) = base @ ''/reading-lists''
   \<and> map_option (\<lambda>payload. member_of payload ''userId'')
       (body (createReadingList_request base list))
     = Some (JStr ''1'')
   \<and> createReadingList base JSON_parse (server_for_user ''1'' r) list =
       (if \<not> ok r then Inl (Error ''Failed to create reading list'')
        else parseApiJson JSON_parse r)
   \<and> createReadingList base JSON_parse (server_for_user ''2'' r) list = Inl NetworkError
   \<and> updateReadingList base JSON_parse fetch ident list =
     (case fetch (updateReadingList_request base ident list) of
        None \<Rightarrow> Inl NetworkError
      | Some r \<Rightarrow>
          if \<not> ok r then Inl (Error ''Failed to update reading list'')
          else parseApiJson JSON_parse r)
   \<and> http_method (updateReadingList_request base ident list) = ''PUT''
   \<and> url (updateReadingList_request base ident list) = base @ ''/reading-lists/'' @ ident
   \<and> map_option (\<lambda>payload. member_of payload ''userId'')
       (body (updateReadingList_request base ident list))
     = Some (JStr ''1'')
   \<and> updateReadingList base JSON_parse (server_for_user ''1'' r) ident list =
       (if \<not> ok r then Inl (Error ''Failed to update reading list'')
        else parseApiJson JSON_parse r)
   \<and> updateReadingList base JSON_parse (server_for_user ''2'' r) ident list = Inl NetworkError
   \<and> CURRENT_USER_ID = ''1''"
proof -
  have c: "map_option (\<lambda>payload. member_of payload ''userId'')
      (body (createReadingList_request base list)) = Some (JStr ''1'')"
    by (simp add: createReadingList_request_def CURRENT_USER_ID_def set_property_same)
  have u: "map_option (\<lambda>payload. member_of payload ''userId'')
      (body (updateReadingList_request base ident list)) = Some (JStr ''1'')"
    by (simp add: updateReadingList_request_def CURRENT_USER_ID_def set_property_same)
  have c1: "server_for_user ''1'' r (createReadingList_request base list) = Some r"
    and c2: "server_for_user ''2'' r (createReadingList_request base list) = None"
    by (simp_all add: server_for_user_def c)
  have u1: "server_for_user ''1'' r (updateReadingList_request base ident list) = Some r"
    and u2: "server_for_user ''2'' r (updateReadingList_request base ident list) = None"
    by (simp_all add: server_for_user_def u)
  have cr: "http_method (createReadingList_request base list) = ''POST''
      \<and> url (createReadingList_request base list) = base @ ''/reading-lists''"
    by (simp add: createReadingList_request_def)
  have ur: "http_method (updateReadingList_request base ident list) = ''PUT''
      \<and> url (updateReadingList_request base ident list) = base @ ''/reading-lists/'' @ ident"
    by (simp add: updateReadingList_request_def)
  have co: "createReadingList base JSON_parse f list =
     (case f (createReadingList_request base list) of
        None \<Rightarrow> Inl NetworkError
      | Some r \<Rightarrow>
          if \<not> ok r then Inl (Error ''Failed to create reading list'')
          else parseApiJson JSON_parse r)" for f
    by (simp add: createReadingList_def)
  have uo: "updateReadingList base JSON_parse f ident list =
     (case f (updateReadingList_request base ident list) of
        None \<Rightarrow> Inl NetworkError
      | Some r \<Rightarrow>
          if \<not> ok r then Inl (Error ''Failed to update reading list'')
          else parseApiJson JSON_parse r)" for f
    by (simp add: updateReadingList_def)
  have cs: "createReadingList base JSON_parse (server_for_user ''1'' r) list =
       (if \<not> ok r then Inl (Error ''Failed to create reading list'')
        else parseApiJson JSON_parse r)"
    "createReadingList base JSON_parse (server_for_user ''2'' r) list = Inl NetworkError"
    by (simp_all add: co c1 c2)
  have us: "updateReadingList base JSON_parse (server_for_user ''1'' r) ident list =
       (if \<not> ok r then Inl (Error ''Failed to update reading list'')
        else parseApiJson JSON_parse r)"
    "updateReadingList base JSON_parse (server_for_user ''2'' r) ident list = Inl NetworkError"
    by (simp_all add: uo u1 u2)
  show ?thesis
    using c u cr ur co [of fetch] uo [of fetch] cs us by (simp add: CURRENT_USER_ID_def)
qed

section \<open>The mocked operations\<close>

text \<open>
  C5, as the code has it. Each of the three mocks resolves after a fixed delay (1000 ms for
  \<open>getRecommendations\<close>, 500 ms for the other two). \<open>getRecommendations\<close> resolves with
  the same two hard-coded recommendations at any time. \<open>getReviews\<close> resolves at any time
  with one review, hard-coded but for its \<^verbatim>\<open>bookId\<close>, which is the argument: the
  payloads for two arguments differ in that field alone. \<open>createReview\<close> resolves with
  its argument, every property kept, but for \<^verbatim>\<open>id\<close> and \<^verbatim>\<open>createdAt\<close>, which it
  sets from the two clock readings of its callback.
\<close>

theorem mock_payloads:
  "delay getRecommendations = 1000
   \<and> callback getRecommendations clock = callback getRecommendations clock'
   \<and> callback getRecommendations clock =
       [JObj [(''id'', JStr ''1''),
              (''bookId'', JStr ''1''),
              (''reason'', JStr ''Based on your interest in philosophical fiction, this book explores themes of choice and regret.''),
              (''confidence'', JNum 0.92)],
        JObj [(''id'', JStr ''2''),
              (''bookId'', JStr ''2''),
              (''reason'', JStr ''If you enjoy science-based thrillers, this space adventure combines humor with hard science.''),
              (''confidence'', JNum 0.88)]]
   \<and> delay (getReviews bookId) = 500
   \<and> callback (getReviews bookId) clock = callback (getReviews bookId) clock'
   \<and> callback (getReviews bookId) clock =
       [JObj [(''id'', JStr ''1''),
              (''bookId'', JStr bookId),
              (''userId'', JStr ''1''),
              (''rating'', JNum 5),
              (''comment'', JStr ''Absolutely loved this book! A must-read.''),
              (''createdAt'', JStr ''2024-11-01T10:00:00Z'')]]
   \<and> map (\<lambda>review. JObj (set_property ''bookId'' (JStr bookId')
            (case review of JObj ps \<Rightarrow> ps | _ \<Rightarrow> [])))
        (callback (getReviews bookId) clock)
       = callback (getReviews bookId') clock'
   \<and> delay (createReview toISOString review) = 500
   \<and> map_of (callback (createReview toISOString review) clock) k =
       (if k = ''createdAt'' then Some (JStr (toISOString (clock 1)))
        else if k = ''id'' then Some (JStr (Number_toString (clock 0)))
        else map_of review k)"
proof -
  have "map_of (callback (createReview toISOString review) clock) k =
       (if k = ''createdAt'' then Some (JStr (toISOString (clock 1)))
        else if k = ''id'' then Some (JStr (Number_toString (clock 0)))
        else map_of review k)"
    by (simp add: createReview_def set_property_same set_property_other)
  moreover have "delay getRecommendations = 1000
      \<and> delay (getReviews bookId) = 500
      \<and> delay (createReview toISOString review) = 500"
    by (simp add: getRecommendations_def getReviews_def createReview_def)
  moreover have "callback getRecommendations clock = callback getRecommendations clock'
      \<and> callback (getReviews bookId) clock = callback (getReviews bookId) clock'"
    by (simp add: getRecommendations_def getReviews_def)
  moreover have "map (\<lambda>review. JObj (set_property ''bookId'' (JStr bookId')
            (case review of JObj ps \<Rightarrow> ps | _ \<Rightarrow> [])))
        (callback (getReviews bookId) clock)
       = callback (getReviews bookId') clock'"
    by (simp add: getReviews_def)
  moreover have "callback getRecommendations clock =
       [JObj [(''id'', JStr ''1''),
              (''bookId'', JStr ''1''),
              (''reason'', JStr ''Based on your interest in philosophical fiction, this book explores themes of choice and regret.''),
              (''confidence'', JNum 0.92)],
        JObj [(''id'', JStr ''2''),
              (''bookId'', JStr ''2''),
              (''reason'', JStr ''If you enjoy science-based thrillers, this space adventure combines humor with hard science.''),
              (''confidence'', JNum 0.88)]]"
    by (simp add: getRecommendations_def)
  moreover have "callback (getReviews bookId) clock =
       [JObj [(''id'', JStr ''1''),
              (''bookId'', JStr bookId),
              (''userId'', JStr ''1''),
              (''rating'', JNum 5),
              (''comment'', JStr ''Absolutely loved this book! A must-read.''),
              (''createdAt'', JStr ''2024-11-01T10:00:00Z'')]]"
    by (simp add: getReviews_def)
  ultimately show ?thesis by blast
qed

text \<open>
  The payload of \<open>getReviews\<close> does depend on its argument: two calls with different
  book ids resolve with different payloads.
\<close>

theorem getReviews_echoes_bookId_counterexample:
  "callback (getReviews ''1'') (clock_at 0) \<noteq> callback (getReviews ''2'') (clock_at 0)"
  by (simp add: getReviews_def)

text \<open>
  C9. The entity that \<open>createBook\<close> or \<open>createReview\<close> resolves with has as its \<^verbatim>\<open>id\<close>
  the reading that \<^verbatim>\<open>Date.now()\<close> gives inside the timer callback, written in decimal,
  whatever \<^verbatim>\<open>id\<close> the argument carried.
\<close>

theorem created_entity_id:
  "map_of (callback (createBook book) clock) ''id'' = Some (JStr (Number_toString (clock 0)))
   \<and> map_of (callback (createReview toISOString review) clock) ''id''
       = Some (JStr (Number_toString (clock 0)))"
  by (simp add: createBook_def createReview_def set_property_same set_property_other)

text \<open>
  C10. Every recommendation that \<open>getRecommendations\<close> resolves with has a numeric
  \<^verbatim>\<open>confidence\<close> between 0 and 1. The literals 0.92 and 0.88 are read as the decimal
  fractions they spell; the doubles nearest to them lie in the same interval, whose ends
  are doubles themselves.
\<close>

theorem recommendation_confidence:
  "\<forall>rec \<in> set (callback getRecommendations clock).
     (case member_of rec ''confidence'' of JNum c \<Rightarrow> 0 \<le> c \<and> c \<le> 1 | _ \<Rightarrow> False)"
  by (simp add: getRecommendations_def)

theorem recommendation_confidence_witness:
  "hd (callback getRecommendations (clock_at 0)) \<in> set (callback getRecommendations (clock_at 0))
   \<and> member_of (hd (callback getRecommendations (clock_at 0))) ''confidence'' = JNum 0.92
   \<and> (case member_of (hd (callback getRecommendations (clock_at 0))) ''confidence'' of
         JNum c \<Rightarrow> 0 \<le> c \<and> c \<le> 1
       | _ \<Rightarrow> False)"
proof -
  have m: "hd (callback getRecommendations (clock_at 0))
      \<in> set (callback getRecommendations (clock_at 0))"
    by (simp add: getRecommendations_def)
  have c: "member_of (hd (callback getRecommendations (clock_at 0))) ''confidence'' = JNum 0.92"
    by (simp add: getRecommendations_def)
  from recommendation_confidence [of "clock_at 0"] m
  have "case member_of (hd (callback getRecommendations (clock_at 0))) ''confidence'' of
         JNum c \<Rightarrow> 0 \<le> c \<and> c \<le> 1
       | _ \<Rightarrow> False"
    by blast
  with m c show ?thesis by blast
qed

section \<open>The confirmation form\<close>

lemma validate_errors:
  "errors (snd (validate vr ve st)) =
     (if \<not> vr (email st) then [(''email'', ''Email is required'')]
      else if \<not> ve (email st) then [(''email'', ''Invalid email format'')]
      else [])
     @ (if \<not> vr (code st) then [(''code'', ''Verification code is required'')] else [])"
  by (simp add: validate_def Let_def)

lemma validate_result:
  "fst (validate vr ve st) \<longleftrightarrow> vr (email st) \<and> ve (email st) \<and> vr (code st)"
  by (simp add: validate_def Let_def)

lemma handleConfirm_calls:
  "list_ex is_confirm (snd (handleConfirm vr ve confirm st)) \<longleftrightarrow> fst (validate vr ve st)"
  by (cases "validate vr ve st") (simp add: handleConfirm_def Let_def split: option.splits)

lemma handleConfirm_errors:
  "errors (fst (handleConfirm vr ve confirm st)) = errors (snd (validate vr ve st))"
  by (cases "validate vr ve st") (simp add: handleConfirm_def Let_def split: option.splits)

lemma handleResend_calls:
  "list_ex is_resend (snd (handleResend vr ve resend st)) \<longleftrightarrow> vr (email st) \<and> ve (email st)"
  by (simp add: handleResend_def Let_def split: option.splits)

lemma handleResend_errors:
  "errors (fst (handleResend vr ve resend st)) =
     (if \<not> vr (email st) then [(''email'', ''Email is required'')]
      else if \<not> ve (email st) then [(''email'', ''Invalid email format'')]
      else errors st)"
  by (simp add: handleResend_def Let_def split: option.splits)

text \<open>
  C4. \<open>vr\<close> and \<open>ve\<close> stand for \<^verbatim>\<open>validateRequired\<close> and \<^verbatim>\<open>validateEmail\<close>, whatever
  they are: an email is empty when \<open>vr\<close> rejects it, malformed when \<open>ve\<close> does, and a
  code is empty when \<open>vr\<close> rejects it. If any of the three holds, \<open>validate\<close> returns
  false, the error of the field concerned is set, and \<open>handleConfirm\<close> does not call the
  provider; \<open>handleConfirm\<close> leaves the errors as \<open>validate\<close> set them, and calls the
  provider exactly when both fields pass.
\<close>

theorem invalid_form_is_not_confirmed:
  "(\<not> vr (email st) \<or> \<not> ve (email st) \<or> \<not> vr (code st)
      \<longrightarrow> \<not> fst (validate vr ve st)
        \<and> \<not> list_ex is_confirm (snd (handleConfirm vr ve confirm st)))
   \<and> (\<not> vr (email st)
      \<longrightarrow> map_of (errors (snd (validate vr ve st))) ''email'' = Some ''Email is required'')
   \<and> (vr (email st) \<and> \<not> ve (email st)
      \<longrightarrow> map_of (errors (snd (validate vr ve st))) ''email'' = Some ''Invalid email format'')
   \<and> (\<not> vr (code st)
      \<longrightarrow> map_of (errors (snd (validate vr ve st))) ''code''
            = Some ''Verification code is required'')
   \<and> errors (fst (handleConfirm vr ve confirm st)) = errors (snd (validate vr ve st))
   \<and> (list_ex is_confirm (snd (handleConfirm vr ve confirm st))
      \<longleftrightarrow> vr (email st) \<and> ve (email st) \<and> vr (code st))"
  by (simp add: handleConfirm_calls handleConfirm_errors validate_errors validate_result)

theorem invalid_form_is_not_confirmed_witness:
  "\<not> required_nonempty (email (form_with [] []))
   \<and> \<not> required_nonempty (code (form_with [] []))
   \<and> \<not> fst (validate required_nonempty email_has_at (form_with [] []))
   \<and> \<not> list_ex is_confirm
        (snd (handleConfirm required_nonempty email_has_at confirm_accepts (form_with [] [])))
   \<and> map_of (errors (snd (validate required_nonempty email_has_at (form_with [] [])))) ''email''
       = Some ''Email is required''
   \<and> map_of (errors (snd (validate required_nonempty email_has_at (form_with [] [])))) ''code''
       = Some ''Verification code is required''
   \<and> required_nonempty (email (form_with ''reader'' ''123456''))
   \<and> \<not> email_has_at (email (form_with ''reader'' ''123456''))
   \<and> \<not> list_ex is_confirm
        (snd (handleConfirm required_nonempty email_has_at confirm_accepts
          (form_with ''reader'' ''123456'')))
   \<and> map_of (errors (snd (validate required_nonempty email_has_at
        (form_with ''reader'' ''123456'')))) ''email''
       = Some ''Invalid email format''
   \<and> list_ex is_confirm
        (snd (handleConfirm required_nonempty email_has_at confirm_accepts
          (form_with ''reader@example.com'' ''123456'')))"
  using
    invalid_form_is_not_confirmed [where vr = required_nonempty and ve = email_has_at
      and confirm = confirm_accepts and st = "form_with [] []"]
    invalid_form_is_not_confirmed [where vr = required_nonempty and ve = email_has_at
      and confirm = confirm_accepts and st = "form_with ''reader'' ''123456''"]
    invalid_form_is_not_confirmed [where vr = required_nonempty and ve = email_has_at
      and confirm = confirm_accepts and st = "form_with ''reader@example.com'' ''123456''"]
  by (simp add: required_nonempty_def email_has_at_def form_with_def)

text \<open>
  C3, as the code has it. \<open>handleResend\<close> calls the provider exactly when \<open>validate\<close>
  records no email error, that is when the email passes both validators. Otherwise it
  records the email error that \<open>validate\<close> records, and nothing else: it never records
  a code error, so its error state is the one \<open>validate\<close> leaves exactly when the code
  passes \<open>vr\<close>.
\<close>

theorem handleResend_follows_validate:
  "(list_ex is_resend (snd (handleResend vr ve resend st))
      \<longleftrightarrow> map_of (errors (snd (validate vr ve st))) ''email'' = None)
   \<and> (map_of (errors (snd (validate vr ve st))) ''email'' = None
      \<longleftrightarrow> vr (email st) \<and> ve (email st))
   \<and> (\<not> (vr (email st) \<and> ve (email st))
      \<longrightarrow> map_of (errors (fst (handleResend vr ve resend st))) ''email''
            = map_of (errors (snd (validate vr ve st))) ''email''
        \<and> map_of (errors (fst (handleResend vr ve resend st))) ''code'' = None
        \<and> (errors (fst (handleResend vr ve resend st)) = errors (snd (validate vr ve st))
            \<longleftrightarrow> vr (code st)))"
  by (simp add: handleResend_calls handleResend_errors validate_errors)

theorem handleResend_follows_validate_witness:
  "\<not> (required_nonempty (email (form_with ''reader'' ''123456''))
        \<and> email_has_at (email (form_with ''reader'' ''123456'')))
   \<and> \<not> list_ex is_resend
        (snd (handleResend required_nonempty email_has_at resend_accepts
          (form_with ''reader'' ''123456'')))
   \<and> errors (fst (handleResend required_nonempty email_has_at resend_accepts
        (form_with ''reader'' ''123456'')))
       = errors (snd (validate required_nonempty email_has_at (form_with ''reader'' ''123456'')))
   \<and> list_ex is_resend
        (snd (handleResend required_nonempty email_has_at resend_accepts
          (form_with ''reader@example.com'' [])))"
  using
    handleResend_follows_validate [where vr = required_nonempty and ve = email_has_at
      and resend = resend_accepts and st = "form_with ''reader'' ''123456''"]
    handleResend_follows_validate [where vr = required_nonempty and ve = email_has_at
      and resend = resend_accepts and st = "form_with ''reader@example.com'' []"]
  by (simp add: required_nonempty_def email_has_at_def form_with_def)

text \<open>
  The two error states do differ: with both fields empty, \<open>handleResend\<close> leaves the
  email error alone, and \<open>validate\<close> leaves the email error and the code error.
\<close>

theorem handleResend_error_state_counterexample:
  "\<not> required_nonempty (email (form_with [] []))
   \<and> errors (fst (handleResend required_nonempty email_has_at resend_accepts (form_with [] [])))
       = [(''email'', ''Email is required'')]
   \<and> errors (snd (validate required_nonempty email_has_at (form_with [] [])))
       = [(''email'', ''Email is required''), (''code'', ''Verification code is required'')]"
  by (simp add: handleResend_def validate_def required_nonempty_def form_with_def)

end
